theory Spec2Isabelle
  imports Complex_Main
begin

section \<open>Python values\<close>

text \<open>
  The elements of a Vector are numbers of Python's numeric tower: unbounded
  integers, exact rationals (\<^verbatim>\<open>fractions.Fraction\<close>) and floats. On integers and
  rationals the arithmetic below is Python's own, which is exact. A float is taken for
  the real number it stands for: what is kept of it is its type in the tower (an
  operation with a float operand yields a float) and the test for zero that makes a
  division raise, not the rounding of a result. The conversion of an integer or a
  rational to a float (\<open>py_float\<close>) does raise \<^verbatim>\<open>OverflowError\<close> and does
  underflow to zero; the infinities and NaN are added to the numbers in the section
  on special values.
\<close>

datatype num = PInt int | PFrac rat | PFloat real

text \<open>\<^verbatim>\<open>float(x)\<close>: the value of a number as a float.\<close>

fun num_val :: "num \<Rightarrow> real" where
  "num_val (PInt i) = of_int i"
| "num_val (PFrac q) = of_rat q"
| "num_val (PFloat r) = r"

fun is_float :: "num \<Rightarrow> bool" where
  "is_float (PFloat r) = True"
| "is_float x = False"

text \<open>
  The exceptions the module raises or lets through. \<^verbatim>\<open>IncompatibleDimensions\<close> carries
  the two lengths it was raised with, \<^verbatim>\<open>ValueError\<close> its message.
\<close>

datatype error =
    IncompatibleDimensions nat nat
  | ValueError string
  | ZeroDivisionError
  | TypeError
  | OverflowError

text \<open>
  A binary special method either returns a value or the constant \<^verbatim>\<open>NotImplemented\<close>,
  which hands the operation back to the interpreter's dispatch.
\<close>

datatype 'a result = NotImplemented | Value 'a

subsection \<open>Arithmetic of the numeric tower\<close>

text \<open>
  Integers and rationals are combined exactly, an integer with a rational giving a
  rational. With a float operand the result is a float, here the real value of the
  result: that the other operand is converted first, which raises
  \<^verbatim>\<open>OverflowError\<close> for one too large, and that the result can be an infinity or NaN,
  is the matter of \<open>xnum_add\<close> and \<open>xnum_mul\<close> in the section on special values.
\<close>

fun num_add :: "num \<Rightarrow> num \<Rightarrow> num" where
  "num_add (PInt a) (PInt b) = PInt (a + b)"
| "num_add (PInt a) (PFrac b) = PFrac (of_int a + b)"
| "num_add (PFrac a) (PInt b) = PFrac (a + of_int b)"
| "num_add (PFrac a) (PFrac b) = PFrac (a + b)"
| "num_add (PFloat a) y = PFloat (a + num_val y)"
| "num_add x (PFloat b) = PFloat (num_val x + b)"

fun num_sub :: "num \<Rightarrow> num \<Rightarrow> num" where
  "num_sub (PInt a) (PInt b) = PInt (a - b)"
| "num_sub (PInt a) (PFrac b) = PFrac (of_int a - b)"
| "num_sub (PFrac a) (PInt b) = PFrac (a - of_int b)"
| "num_sub (PFrac a) (PFrac b) = PFrac (a - b)"
| "num_sub (PFloat a) y = PFloat (a - num_val y)"
| "num_sub x (PFloat b) = PFloat (num_val x - b)"

fun num_mul :: "num \<Rightarrow> num \<Rightarrow> num" where
  "num_mul (PInt a) (PInt b) = PInt (a * b)"
| "num_mul (PInt a) (PFrac b) = PFrac (of_int a * b)"
| "num_mul (PFrac a) (PInt b) = PFrac (a * of_int b)"
| "num_mul (PFrac a) (PFrac b) = PFrac (a * b)"
| "num_mul (PFloat a) y = PFloat (a * num_val y)"
| "num_mul x (PFloat b) = PFloat (num_val x * b)"

text \<open>
  True division (the module imports \<^verbatim>\<open>division\<close> from \<^verbatim>\<open>__future__\<close>): two integers
  give a float, rationals stay rational, and a zero divisor raises. A float quotient
  is its real value, as above: the \<^verbatim>\<open>OverflowError\<close> of an operand or a quotient too
  large for a float is not part of this definition.
\<close>

fun num_truediv :: "num \<Rightarrow> num \<Rightarrow> error + num" where
  "num_truediv (PInt a) (PInt b) =
     (if b = 0 then Inl ZeroDivisionError else Inr (PFloat (of_int a / of_int b)))"
| "num_truediv (PInt a) (PFrac b) =
     (if b = 0 then Inl ZeroDivisionError else Inr (PFrac (of_int a / b)))"
| "num_truediv (PFrac a) (PInt b) =
     (if b = 0 then Inl ZeroDivisionError else Inr (PFrac (a / of_int b)))"
| "num_truediv (PFrac a) (PFrac b) =
     (if b = 0 then Inl ZeroDivisionError else Inr (PFrac (a / b)))"
| "num_truediv (PFloat a) y =
     (if num_val y = 0 then Inl ZeroDivisionError else Inr (PFloat (a / num_val y)))"
| "num_truediv x (PFloat b) =
     (if b = 0 then Inl ZeroDivisionError else Inr (PFloat (num_val x / b)))"



text \<open>\<^verbatim>\<open>sum(xs)\<close>: the builtin starts from the integer 0 and adds from the left.\<close>

definition py_sum :: "num list \<Rightarrow> num" where
  "py_sum xs = foldl num_add (PInt 0) xs"

subsection \<open>The functions of \<^verbatim>\<open>math\<close> the module uses\<close>

text \<open>
  The functions of \<^verbatim>\<open>math\<close> convert their argument to a float first. A double holds
  the values below \<open>float_limit\<close> in magnitude: an integer or a rational at or beyond it
  raises \<^verbatim>\<open>OverflowError\<close>, and one of magnitude at most \<open>float_tiny\<close>, half the
  smallest positive double, becomes zero.
\<close>

definition float_limit :: real where
  "float_limit = 2 ^ 1024 - 2 ^ 970"

definition float_tiny :: real where
  "float_tiny = 1 / 2 ^ 1075"

definition to_double :: "real \<Rightarrow> error + real" where
  "to_double r =
     (if float_limit \<le> \<bar>r\<bar> then Inl OverflowError
      else if \<bar>r\<bar> \<le> float_tiny then Inr 0
      else Inr r)"

fun py_float :: "num \<Rightarrow> error + real" where
  "py_float (PFloat r) = Inr r"
| "py_float x = to_double (num_val x)"

definition py_sqrt :: "num \<Rightarrow> error + num" where
  "py_sqrt x =
     (case py_float x of
        Inl e \<Rightarrow> Inl e
      | Inr a \<Rightarrow>
          if a < 0 then Inl (ValueError ''math domain error'')
          else Inr (PFloat (sqrt a)))"




subsection \<open>Values that are not numbers\<close>

text \<open>
  The arguments of the constructor and the right-hand operand of an operator can be
  any Python value. \<open>Gen\<close> stands for an iterable that is not a
  \<^verbatim>\<open>collections.Sequence\<close> (a generator); a Vector of numbers \<open>v\<close>, being a tuple,
  is the value \<open>Tuple (map Num v)\<close>.
\<close>

datatype pyval =
    Num num
  | Str string
  | NoneVal
  | Tuple "pyval list"
  | ListV "pyval list"
  | Gen "pyval list"

text \<open>Iterating a value: \<open>None\<close> when the value is not iterable.\<close>

fun py_iter :: "pyval \<Rightarrow> pyval list option" where
  "py_iter (Num n) = None"
| "py_iter NoneVal = None"
| "py_iter (Str s) = Some (map (\<lambda>c. Str [c]) s)"
| "py_iter (Tuple xs) = Some xs"
| "py_iter (ListV xs) = Some xs"
| "py_iter (Gen xs) = Some xs"

text \<open>\<^verbatim>\<open>isinstance(other, Sequence)\<close>.\<close>

fun is_Sequence :: "pyval \<Rightarrow> bool" where
  "is_Sequence (Str s) = True"
| "is_Sequence (Tuple xs) = True"
| "is_Sequence (ListV xs) = True"
| "is_Sequence x = False"

text \<open>The items of a sequence, in order (empty for a value that has none).\<close>

definition items :: "pyval \<Rightarrow> pyval list" where
  "items x = (case py_iter x of None \<Rightarrow> [] | Some xs \<Rightarrow> xs)"

text \<open>
  \<^verbatim>\<open>v + w\<close>, \<^verbatim>\<open>w + v\<close>, \<^verbatim>\<open>v - w\<close> and \<^verbatim>\<open>w - v\<close> for a number \<open>v\<close> and any value
  \<open>w\<close>: a number and a string, a tuple, a list, a generator or \<^verbatim>\<open>None\<close> have no sum
  and no difference, in either order.
\<close>

fun py_add :: "num \<Rightarrow> pyval \<Rightarrow> error + num" where
  "py_add v (Num w) = Inr (num_add v w)"
| "py_add v x = Inl TypeError"

fun py_radd :: "num \<Rightarrow> pyval \<Rightarrow> error + num" where
  "py_radd v (Num w) = Inr (num_add w v)"
| "py_radd v x = Inl TypeError"

fun py_sub :: "num \<Rightarrow> pyval \<Rightarrow> error + num" where
  "py_sub v (Num w) = Inr (num_sub v w)"
| "py_sub v x = Inl TypeError"

fun py_rsub :: "num \<Rightarrow> pyval \<Rightarrow> error + num" where
  "py_rsub v (Num w) = Inr (num_sub w v)"
| "py_rsub v x = Inl TypeError"

text \<open>
  Building a tuple from a generator expression: the elements are computed from left
  to right and the first exception ends the construction.
\<close>

fun collect :: "('a \<Rightarrow> error + 'b) \<Rightarrow> 'a list \<Rightarrow> error + 'b list" where
  "collect f [] = Inr []"
| "collect f (x # xs) =
     (case f x of
        Inl e \<Rightarrow> Inl e
      | Inr y \<Rightarrow> (case collect f xs of Inl e \<Rightarrow> Inl e | Inr ys \<Rightarrow> Inr (y # ys)))"

section \<open>The class Vector\<close>

text \<open>
  A Vector is a tuple; the arithmetic below is that of a Vector whose elements are
  numbers (``the elements must support numeric operations'').
\<close>

type_synonym vector = "num list"

text \<open>
  \<^verbatim>\<open>Vector.__new__(cls, *args)\<close>: a single argument is the iterable of the elements,
  any other number of arguments are the elements themselves. \<^verbatim>\<open>tuple(x)\<close> raises
  \<^verbatim>\<open>TypeError\<close> for an \<open>x\<close> that is not iterable.
\<close>

definition py_tuple :: "pyval \<Rightarrow> error + pyval list" where
  "py_tuple x = (case py_iter x of None \<Rightarrow> Inl TypeError | Some xs \<Rightarrow> Inr xs)"

definition Vector_new :: "pyval list \<Rightarrow> error + pyval list" where
  "Vector_new args = (if length args = 1 then py_tuple (hd args) else Inr args)"

text \<open>\<^verbatim>\<open>str(n)\<close> for a length \<open>n\<close>, as the error message formats it.\<close>

definition digit_char :: "nat \<Rightarrow> char" where
  "digit_char d = ''0123456789'' ! d"

fun str_nat :: "nat \<Rightarrow> string" where
  "str_nat n = (if n < 10 then [digit_char n] else str_nat (n div 10) @ [digit_char (n mod 10)])"

declare str_nat.simps [simp del]

text \<open>\<^verbatim>\<open>_check_compatibility\<close> and \<^verbatim>\<open>_dimension_error\<close>.\<close>

definition check_compatibility :: "'a list \<Rightarrow> 'b list \<Rightarrow> error + unit" where
  "check_compatibility self other =
     (if length self \<noteq> length other
      then Inl (IncompatibleDimensions (length self) (length other))
      else Inr ())"

definition dimension_error :: "vector \<Rightarrow> string \<Rightarrow> error" where
  "dimension_error self name =
     ValueError (''.'' @ name @ ''() is not implemented for '' @ str_nat (length self)
                 @ ''-dimensional vectors.'')"

subsection \<open>Operators\<close>

text \<open>
  An operator builds its result as \<^verbatim>\<open>Vector(e for ...)\<close>, a call of the constructor
  with one argument, the generator of the elements: \<open>Vector_new [Gen xs] = Inr xs\<close>,
  the tuple of the elements generated. The definitions below return that tuple, or the
  first exception an element raised.
\<close>

definition Vector_add :: "vector \<Rightarrow> pyval \<Rightarrow> error + vector result" where
  "Vector_add self other =
     (if \<not> is_Sequence other then Inr NotImplemented
      else case check_compatibility self (items other) of
        Inl e \<Rightarrow> Inl e
      | Inr u \<Rightarrow>
          (case collect (\<lambda>(v, w). py_add v w) (zip self (items other)) of
             Inl e \<Rightarrow> Inl e
           | Inr r \<Rightarrow> Inr (Value r)))"

definition Vector_radd :: "vector \<Rightarrow> pyval \<Rightarrow> error + vector result" where
  "Vector_radd self other =
     (if \<not> is_Sequence other then Inr NotImplemented
      else case check_compatibility self (items other) of
        Inl e \<Rightarrow> Inl e
      | Inr u \<Rightarrow>
          (case collect (\<lambda>(v, w). py_radd v w) (zip self (items other)) of
             Inl e \<Rightarrow> Inl e
           | Inr r \<Rightarrow> Inr (Value r)))"

definition Vector_sub :: "vector \<Rightarrow> pyval \<Rightarrow> error + vector result" where
  "Vector_sub self other =
     (if \<not> is_Sequence other then Inr NotImplemented
      else case check_compatibility self (items other) of
        Inl e \<Rightarrow> Inl e
      | Inr u \<Rightarrow>
          (case collect (\<lambda>(v, w). py_sub v w) (zip self (items other)) of
             Inl e \<Rightarrow> Inl e
           | Inr r \<Rightarrow> Inr (Value r)))"

definition Vector_rsub :: "vector \<Rightarrow> pyval \<Rightarrow> error + vector result" where
  "Vector_rsub self other =
     (if \<not> is_Sequence other then Inr NotImplemented
      else case check_compatibility self (items other) of
        Inl e \<Rightarrow> Inl e
      | Inr u \<Rightarrow>
          (case collect (\<lambda>(v, w). py_rsub v w) (zip self (items other)) of
             Inl e \<Rightarrow> Inl e
           | Inr r \<Rightarrow> Inr (Value r)))"

text \<open>Multiplication and division by a scalar, a number.\<close>

definition Vector_mul :: "vector \<Rightarrow> num \<Rightarrow> vector" where
  "Vector_mul self s = map (\<lambda>v. num_mul v s) self"

definition Vector_rmul :: "vector \<Rightarrow> num \<Rightarrow> vector" where
  "Vector_rmul self s = map (\<lambda>v. num_mul v s) self"

definition Vector_truediv :: "vector \<Rightarrow> num \<Rightarrow> error + vector" where
  "Vector_truediv self s = collect (\<lambda>v. num_truediv v s) self"



definition Vector_pos :: "vector \<Rightarrow> vector" where
  "Vector_pos self = self"

subsection \<open>Methods and properties\<close>

definition magnitude_squared :: "vector \<Rightarrow> num" where
  "magnitude_squared self = py_sum (map (\<lambda>v. num_mul v v) self)"

definition Vector_abs :: "vector \<Rightarrow> error + num" where
  "Vector_abs self = py_sqrt (magnitude_squared self)"

definition magnitude :: "vector \<Rightarrow> error + num" where
  "magnitude self = Vector_abs self"

text \<open>
  The methods below take \<open>other\<close> as a Vector or a plain sequence of numbers; both
  are the list of their elements.
\<close>

definition dot :: "vector \<Rightarrow> num list \<Rightarrow> error + num" where
  "dot self other =
     (case check_compatibility self other of
        Inl e \<Rightarrow> Inl e
      | Inr u \<Rightarrow> Inr (py_sum (map (\<lambda>(v, w). num_mul v w) (zip self other))))"

text \<open>\<^verbatim>\<open>cross\<close> returns a number for two dimensions and a Vector for three.\<close>

datatype crossval = Scalar num | Vect vector

definition cross :: "vector \<Rightarrow> num list \<Rightarrow> error + crossval" where
  "cross self other =
     (case check_compatibility self other of
        Inl e \<Rightarrow> Inl e
      | Inr u \<Rightarrow>
          if length self = 2 then
            Inr (Scalar (num_sub (num_mul (self ! 0) (other ! 1))
                                 (num_mul (self ! 1) (other ! 0))))
          else if length self = 3 then
            Inr (Vect [num_sub (num_mul (self ! 1) (other ! 2))
                               (num_mul (self ! 2) (other ! 1)),
                       num_sub (num_mul (self ! 2) (other ! 0))
                               (num_mul (self ! 0) (other ! 2)),
                       num_sub (num_mul (self ! 0) (other ! 1))
                               (num_mul (self ! 1) (other ! 0))])
          else Inl (dimension_error self ''cross''))"




definition normalized :: "vector \<Rightarrow> error + vector" where
  "normalized self =
     (case Vector_abs self of
        Inl e \<Rightarrow> Inl e
      | Inr m \<Rightarrow> Vector_truediv self m)"

definition projected :: "vector \<Rightarrow> num list \<Rightarrow> error + vector" where
  "projected self other =
     (case dot self other of
        Inl e \<Rightarrow> Inl e
      | Inr d \<Rightarrow>
          (case num_truediv d (magnitude_squared self) of
             Inl e \<Rightarrow> Inl e
           | Inr q \<Rightarrow> Inr (Vector_mul self q)))"

definition scaled :: "vector \<Rightarrow> num \<Rightarrow> error + vector" where
  "scaled self s =
     (case Vector_abs self of
        Inl e \<Rightarrow> Inl e
      | Inr m \<Rightarrow>
          (case num_truediv s m of
             Inl e \<Rightarrow> Inl e
           | Inr q \<Rightarrow> Inr (Vector_mul self q)))"

subsection \<open>Vectors as operands\<close>


subsection \<open>Display\<close>

text \<open>
  \<^verbatim>\<open>repr\<close> of a tuple calls \<^verbatim>\<open>repr\<close> on each element, here the parameter \<open>r\<close>:
  a tuple of one element is written with a trailing comma, any other as the elements
  separated by a comma and a blank.
\<close>

fun join :: "string \<Rightarrow> string list \<Rightarrow> string" where
  "join sep [] = []"
| "join sep [x] = x"
| "join sep (x # y # ys) = x @ sep @ join sep (y # ys)"

definition tuple_repr :: "('a \<Rightarrow> string) \<Rightarrow> 'a list \<Rightarrow> string" where
  "tuple_repr r xs =
     (if length xs = 1 then ''('' @ r (hd xs) @ '',)''
      else ''('' @ join '', '' (map r xs) @ '')'')"

text \<open>
  \<^verbatim>\<open>Vector.__repr__\<close>: the format \<^verbatim>\<open>'{0}({1!r})'\<close> for a Vector of length 1 and
  \<^verbatim>\<open>'{0}{1!r}'\<close> otherwise, applied to the name of the class and the tuple.
\<close>

definition Vector_repr :: "('a \<Rightarrow> string) \<Rightarrow> 'a list \<Rightarrow> string" where
  "Vector_repr r self =
     (if length self = 1 then ''Vector'' @ ''('' @ tuple_repr r self @ '')''
      else ''Vector'' @ tuple_repr r self)"

text \<open>\<^verbatim>\<open>repr\<close> of an integer: decimal digits, with a sign when negative.\<close>

definition int_repr :: "int \<Rightarrow> string" where
  "int_repr i = (if i < 0 then CHR ''-'' # str_nat (nat (- i)) else str_nat (nat i))"

subsection \<open>Reading the display back\<close>

text \<open>
  Evaluating the text that \<^verbatim>\<open>__repr__\<close> produced is a call of the constructor. The
  reader below covers the expressions such a text can be: the name \<^verbatim>\<open>Vector\<close>,
  then in parentheses the arguments separated by commas, each an element literal (read
  by the parameter \<open>p\<close>) or a parenthesised display; blanks may precede an item. A
  parenthesised display with no comma and one item is that item; with a comma, or
  empty, it is a tuple.
\<close>

definition skip_ws :: "string \<Rightarrow> string" where
  "skip_ws s = dropWhile (\<lambda>c. c = CHR '' '') s"

text \<open>
  The items up to the closing parenthesis; the flag tells whether a comma was read,
  the string is what follows the parenthesis.
\<close>

function parse_list ::
  "(string \<Rightarrow> ('a \<times> string) option) \<Rightarrow> string \<Rightarrow> (('a list \<times> bool) \<times> string) option"
where
  "parse_list p s =
     (case skip_ws s of
        [] \<Rightarrow> None
      | c # t \<Rightarrow>
          if c = CHR '')'' then Some (([], False), t)
          else
            (case p (c # t) of
               None \<Rightarrow> None
             | Some (x, s1) \<Rightarrow>
                 (case skip_ws s1 of
                    [] \<Rightarrow> None
                  | d # u \<Rightarrow>
                      if d = CHR '')'' then Some (([x], False), u)
                      else if d = CHR '','' \<and> length u < length s then
                        (case parse_list p u of
                           None \<Rightarrow> None
                         | Some ((xs, b), rest) \<Rightarrow> Some ((x # xs, True), rest))
                      else None)))"
  by pat_completeness auto
termination
  by (relation "measure (\<lambda>(p, s). length s)") auto

declare parse_list.simps [simp del]

text \<open>An argument of the call: an element, or a tuple of elements.\<close>

datatype 'a arg = Item 'a | Display "'a list"

definition parse_arg :: "(string \<Rightarrow> ('a \<times> string) option) \<Rightarrow> string \<Rightarrow> ('a arg \<times> string) option" where
  "parse_arg p s =
     (case s of
        [] \<Rightarrow> None
      | c # t \<Rightarrow>
          if c = CHR ''('' then
            (case parse_list p t of
               None \<Rightarrow> None
             | Some ((xs, comma), rest) \<Rightarrow>
                 if \<not> comma \<and> length xs = 1 then Some (Item (hd xs), rest)
                 else Some (Display xs, rest))
          else
            (case p s of
               None \<Rightarrow> None
             | Some (x, rest) \<Rightarrow> Some (Item x, rest)))"

definition parse_call :: "(string \<Rightarrow> ('a \<times> string) option) \<Rightarrow> string \<Rightarrow> 'a arg list option" where
  "parse_call p s =
     (if take 7 s = ''Vector('' then
        (case parse_list (parse_arg p) (drop 7 s) of
           None \<Rightarrow> None
         | Some ((args, comma), rest) \<Rightarrow> if rest = [] then Some args else None)
      else None)"

text \<open>
  The value of an argument, given the value \<open>emb x\<close> of each element, and the value
  of the text: the constructor applied to the arguments, or \<open>None\<close> when the text is
  not such a call.
\<close>

fun arg_val :: "('a \<Rightarrow> pyval) \<Rightarrow> 'a arg \<Rightarrow> pyval" where
  "arg_val emb (Item x) = emb x"
| "arg_val emb (Display xs) = Tuple (map emb xs)"

definition eval_repr ::
  "(string \<Rightarrow> ('a \<times> string) option) \<Rightarrow> ('a \<Rightarrow> pyval) \<Rightarrow> string \<Rightarrow> (error + pyval list) option" where
  "eval_repr p emb s = map_option (\<lambda>args. Vector_new (map (arg_val emb) args)) (parse_call p s)"

text \<open>
  What the round trip needs of the elements: the display of an element is not empty,
  does not begin with a blank or a parenthesis, and is read back as that element
  when a comma or a closing parenthesis follows it.
\<close>

definition literal_ok :: "('a \<Rightarrow> string) \<Rightarrow> (string \<Rightarrow> ('a \<times> string) option) \<Rightarrow> bool" where
  "literal_ok r p =
     (\<forall>x. r x \<noteq> [] \<and> hd (r x) \<notin> set '' ()'' \<and>
          (\<forall>rest. rest \<noteq> [] \<and> hd rest \<in> set '',)'' \<longrightarrow> p (r x @ rest) = Some (x, rest)))"

text \<open>Reading an integer literal: an optional sign and a run of digits.\<close>

definition is_digit :: "char \<Rightarrow> bool" where
  "is_digit c = (c \<in> set ''0123456789'')"

definition digit_val :: "char \<Rightarrow> nat" where
  "digit_val c = of_char c - 48"

definition parse_nat :: "string \<Rightarrow> (nat \<times> string) option" where
  "parse_nat s =
     (let ds = takeWhile is_digit s in
      if ds = [] then None
      else Some (foldl (\<lambda>a c. 10 * a + digit_val c) 0 ds, dropWhile is_digit s))"

definition parse_int :: "string \<Rightarrow> (int \<times> string) option" where
  "parse_int s =
     (case s of
        [] \<Rightarrow> None
      | c # t \<Rightarrow>
          if c = CHR ''-'' then map_option (\<lambda>(n, rest). (- int n, rest)) (parse_nat t)
          else map_option (\<lambda>(n, rest). (int n, rest)) (parse_nat s))"

text \<open>An integer as a Python value.\<close>

definition int_val :: "int \<Rightarrow> pyval" where
  "int_val i = Num (PInt i)"



section \<open>Floats with special values\<close>

text \<open>
  A float can also be an infinity or NaN, which no real number stands for. The
  numbers are extended by these three values here, and addition, multiplication and
  \<^verbatim>\<open>==\<close> are defined on the extended numbers as Python has them: integers and
  rationals are combined exactly; with a float operand the other operand is converted
  to a float, which can raise \<^verbatim>\<open>OverflowError\<close>; a float result beyond the range of
  a double is an infinity; and NaN is equal to nothing, itself included.
\<close>

datatype special = PosInf | NegInf | NaN

datatype xnum = Finite num | Special special

fun is_nan :: "xnum \<Rightarrow> bool" where
  "is_nan (Special NaN) = True"
| "is_nan x = False"

fun is_exact :: "xnum \<Rightarrow> bool" where
  "is_exact (Finite (PInt i)) = True"
| "is_exact (Finite (PFrac q)) = True"
| "is_exact x = False"

text \<open>The float that a float operation returns for the exact result \<open>r\<close>.\<close>

definition float_result :: "real \<Rightarrow> xnum" where
  "float_result r =
     (if float_limit \<le> r then Special PosInf
      else if r \<le> - float_limit then Special NegInf
      else if \<bar>r\<bar> \<le> float_tiny then Finite (PFloat 0)
      else Finite (PFloat r))"

fun xnum_add :: "xnum \<Rightarrow> xnum \<Rightarrow> error + xnum" where
  "xnum_add (Finite a) (Finite b) =
     (if is_float a \<or> is_float b then
        (case py_float a of
           Inl e \<Rightarrow> Inl e
         | Inr x \<Rightarrow>
             (case py_float b of
                Inl e \<Rightarrow> Inl e
              | Inr y \<Rightarrow> Inr (float_result (x + y))))
      else Inr (Finite (num_add a b)))"
| "xnum_add (Finite a) (Special t) =
     (case py_float a of Inl e \<Rightarrow> Inl e | Inr x \<Rightarrow> Inr (Special t))"
| "xnum_add (Special s) (Finite b) =
     (case py_float b of Inl e \<Rightarrow> Inl e | Inr y \<Rightarrow> Inr (Special s))"
| "xnum_add (Special s) (Special t) = Inr (Special (if s = t then s else NaN))"

text \<open>
  An infinity times a number: NaN for zero, the infinity for a positive number, the
  opposite infinity for a negative one.
\<close>

definition times_special :: "real \<Rightarrow> special \<Rightarrow> special" where
  "times_special x s =
     (if s = NaN \<or> x = 0 then NaN
      else if 0 < x then s
      else if s = PosInf then NegInf
      else PosInf)"

fun xnum_mul :: "xnum \<Rightarrow> xnum \<Rightarrow> error + xnum" where
  "xnum_mul (Finite a) (Finite b) =
     (if is_float a \<or> is_float b then
        (case py_float a of
           Inl e \<Rightarrow> Inl e
         | Inr x \<Rightarrow>
             (case py_float b of
                Inl e \<Rightarrow> Inl e
              | Inr y \<Rightarrow> Inr (float_result (x * y))))
      else Inr (Finite (num_mul a b)))"
| "xnum_mul (Finite a) (Special t) =
     (case py_float a of Inl e \<Rightarrow> Inl e | Inr x \<Rightarrow> Inr (Special (times_special x t)))"
| "xnum_mul (Special s) (Finite b) =
     (case py_float b of Inl e \<Rightarrow> Inl e | Inr y \<Rightarrow> Inr (Special (times_special y s)))"
| "xnum_mul (Special s) (Special t) =
     Inr (Special (if s = NaN \<or> t = NaN then NaN else if s = t then PosInf else NegInf))"

text \<open>\<^verbatim>\<open>x == y\<close>: numbers are compared by their value, and NaN is equal to nothing.\<close>

fun xnum_eq :: "xnum \<Rightarrow> xnum \<Rightarrow> bool" where
  "xnum_eq (Finite a) (Finite b) = (num_val a = num_val b)"
| "xnum_eq (Special s) (Special t) = (s = t \<and> s \<noteq> NaN)"
| "xnum_eq x y = False"

text \<open>
  \<^verbatim>\<open>__add__\<close>, \<^verbatim>\<open>__mul__\<close> and \<^verbatim>\<open>__rmul__\<close> once more, for Vectors of extended numbers;
  \<open>other\<close> is a Vector, which is a \<^verbatim>\<open>Sequence\<close>.
\<close>

definition xVector_add :: "xnum list \<Rightarrow> xnum list \<Rightarrow> error + xnum list" where
  "xVector_add self other =
     (case check_compatibility self other of
        Inl e \<Rightarrow> Inl e
      | Inr u \<Rightarrow> collect (\<lambda>(v, w). xnum_add v w) (zip self other))"

definition xVector_mul :: "xnum list \<Rightarrow> xnum \<Rightarrow> error + xnum list" where
  "xVector_mul self s = collect (\<lambda>v. xnum_mul v s) self"

definition xVector_rmul :: "xnum list \<Rightarrow> xnum \<Rightarrow> error + xnum list" where
  "xVector_rmul self s = collect (\<lambda>v. xnum_mul v s) self"

text \<open>
  \<^verbatim>\<open>v == w\<close> is the equality of tuples: the same length and equal elements, position
  by position. The elements of two results are distinct objects, so each pair is
  compared with \<^verbatim>\<open>==\<close>.
\<close>

definition xVector_eq :: "xnum list \<Rightarrow> xnum list \<Rightarrow> bool" where
  "xVector_eq v w = (length v = length w \<and> list_all (\<lambda>(x, y). xnum_eq x y) (zip v w))"

text \<open>
  \<^verbatim>\<open>s * v\<close> with the number on the left: the number's own \<^verbatim>\<open>__mul__\<close> does not know
  the Vector and returns \<^verbatim>\<open>NotImplemented\<close>, so the interpreter calls the Vector's
  \<^verbatim>\<open>__rmul__\<close>; \<^verbatim>\<open>v * s\<close> calls \<^verbatim>\<open>__mul__\<close>.
\<close>

definition scalar_times_vector :: "xnum \<Rightarrow> xnum list \<Rightarrow> error + xnum list" where
  "scalar_times_vector s v = xVector_rmul v s"

definition vector_times_scalar :: "xnum list \<Rightarrow> xnum \<Rightarrow> error + xnum list" where
  "vector_times_scalar v s = xVector_mul v s"

section \<open>Properties\<close>

subsection \<open>The constructor on a generator\<close>

lemma Vector_new_generator: "Vector_new [Gen xs] = Inr xs"
  by (simp add: Vector_new_def py_tuple_def)

subsection \<open>Values of sums and products\<close>

lemma num_val_add: "num_val (num_add x y) = num_val x + num_val y"
  by (cases x; cases y) (simp_all add: of_rat_add)


lemma num_val_mul: "num_val (num_mul x y) = num_val x * num_val y"
  by (cases x; cases y) (simp_all add: of_rat_mult)

lemma is_float_add: "is_float (num_add x y) = (is_float x \<or> is_float y)"
  by (cases x; cases y) simp_all

lemma is_float_mul: "is_float (num_mul x y) = (is_float x \<or> is_float y)"
  by (cases x; cases y) simp_all

lemma num_val_foldl_add:
  "num_val (foldl num_add a xs) = num_val a + sum_list (map num_val xs)"
  by (induction xs arbitrary: a) (simp_all add: num_val_add)

lemma is_float_foldl_add:
  "is_float (foldl num_add a xs) = (is_float a \<or> list_ex is_float xs)"
  by (induction xs arbitrary: a) (simp_all add: is_float_add)

lemma num_val_py_sum: "num_val (py_sum xs) = sum_list (map num_val xs)"
  by (simp add: py_sum_def num_val_foldl_add)

lemma num_val_magnitude_squared:
  "num_val (magnitude_squared v) = (\<Sum>x\<leftarrow>v. num_val x * num_val x)"
  by (simp add: magnitude_squared_def num_val_py_sum num_val_mul comp_def)

subsection \<open>Collecting the elements\<close>


lemma collect_fails: "xs \<noteq> [] \<Longrightarrow> (\<And>x. f x = Inl e) \<Longrightarrow> collect f xs = Inl e"
  by (cases xs) simp_all
















subsection \<open>Magnitudes, zero divisors and angles\<close>








subsection \<open>Conversions to float\<close>

lemma float_bounds: "float_tiny < 1 / 16" "1000 < float_limit"
  by (simp_all add: float_tiny_def float_limit_def)

lemma to_double_moderate: "1 / 16 \<le> \<bar>r\<bar> \<Longrightarrow> \<bar>r\<bar> \<le> 1000 \<Longrightarrow> to_double r = Inr r"
  using float_bounds by (simp add: to_double_def)

lemma float_result_moderate:
  "1 / 16 \<le> \<bar>r\<bar> \<Longrightarrow> \<bar>r\<bar> \<le> 1000 \<Longrightarrow> float_result r = Finite (PFloat r)"
  using float_bounds by (auto simp: float_result_def)


subsection \<open>The angle, by cases\<close>



















subsection \<open>Extended numbers\<close>

lemma xnum_add_commute: "xnum_add x y = xnum_add y x"
proof (cases x; cases y)
  fix a b
  assume "x = Finite a" "y = Finite b"
  then show ?thesis
    by (cases a; cases b) (auto simp: add.commute split: sum.splits)
qed (auto split: sum.splits)

lemma xnum_eq_self: "xnum_eq x x \<longleftrightarrow> \<not> is_nan x"
proof (cases x)
  case (Finite a)
  then show ?thesis by simp
next
  case (Special s)
  then show ?thesis by (cases s) simp_all
qed

lemma xVector_eq_self: "xVector_eq a a \<longleftrightarrow> \<not> list_ex is_nan a"
  by (induction a) (auto simp: xVector_eq_def xnum_eq_self)

lemma xVector_add_commute:
  "length w = length v \<Longrightarrow> xVector_add v w = xVector_add w v"
proof -
  assume len: "length w = length v"
  then have "collect (\<lambda>(x, y). xnum_add x y) (zip v w) = collect (\<lambda>(x, y). xnum_add x y) (zip w v)"
  proof (induction w v rule: list_induct2)
    case Nil
    then show ?case by simp
  next
    case (Cons x xs y ys)
    then show ?case by (simp add: xnum_add_commute [of y x] split: sum.splits)
  qed
  with len show ?thesis
    by (simp add: xVector_add_def check_compatibility_def)
qed

lemma xnum_add_exact:
  "is_exact x \<Longrightarrow> is_exact y \<Longrightarrow> \<exists>z. xnum_add x y = Inr z \<and> is_exact z"
  by (cases x rule: is_exact.cases; cases y rule: is_exact.cases) simp_all

lemma xnum_mul_exact:
  "is_exact x \<Longrightarrow> is_exact y \<Longrightarrow> \<exists>z. xnum_mul x y = Inr z \<and> is_exact z"
  by (cases x rule: is_exact.cases; cases y rule: is_exact.cases) simp_all

lemma is_exact_not_nan: "is_exact x \<Longrightarrow> \<not> is_nan x"
  by (cases x rule: is_exact.cases) simp_all

lemma collect_exact:
  assumes "\<And>x. x \<in> set xs \<Longrightarrow> \<exists>z. f x = Inr z \<and> is_exact z"
  shows "\<exists>zs. collect f xs = Inr zs \<and> list_all is_exact zs"
  using assms
proof (induction xs)
  case Nil
  then show ?case by simp
next
  case (Cons a xs)
  from Cons.prems [of a] obtain z where "f a = Inr z" "is_exact z" by auto
  moreover from Cons obtain zs where "collect f xs = Inr zs" "list_all is_exact zs" by auto
  ultimately show ?case by simp
qed

lemma xVector_add_exact:
  assumes "length w = length v" "list_all is_exact v" "list_all is_exact w"
  shows "\<exists>a. xVector_add v w = Inr a \<and> list_all is_exact a"
proof -
  have "\<exists>z. (case p of (x, y) \<Rightarrow> xnum_add x y) = Inr z \<and> is_exact z" if "p \<in> set (zip v w)" for p
  proof -
    obtain x y where p: "p = (x, y)" by (cases p)
    with that have "x \<in> set v" "y \<in> set w" by (auto dest: set_zip_leftD set_zip_rightD)
    with assms have "is_exact x" "is_exact y" by (auto simp: list_all_iff)
    with p show ?thesis by (simp add: xnum_add_exact)
  qed
  then have "\<exists>zs. collect (\<lambda>(x, y). xnum_add x y) (zip v w) = Inr zs \<and> list_all is_exact zs"
    by (rule collect_exact)
  with assms(1) show ?thesis
    by (simp add: xVector_add_def check_compatibility_def)
qed

lemma xVector_mul_exact:
  assumes "list_all is_exact v" "is_exact s"
  shows "\<exists>a. xVector_mul v s = Inr a \<and> list_all is_exact a"
  unfolding xVector_mul_def
  using assms by (intro collect_exact xnum_mul_exact) (auto simp: list_all_iff)

lemma list_all_exact_no_nan: "list_all is_exact a \<Longrightarrow> \<not> list_ex is_nan a"
  by (auto simp: list_all_iff list_ex_iff is_exact_not_nan)

subsection \<open>Integer literals\<close>

lemma digit_cases: "d < 10 \<Longrightarrow> d \<in> {0, 1, 2, 3, 4, 5, 6, 7, 8, 9 :: nat}"
  by auto

lemma is_digit_digit_char: "d < 10 \<Longrightarrow> is_digit (digit_char d)"
  by (drule digit_cases) (auto simp: is_digit_def digit_char_def)

lemma digit_val_digit_char: "d < 10 \<Longrightarrow> digit_val (digit_char d) = d"
  by (drule digit_cases) (auto simp: digit_val_def digit_char_def)

lemma str_nat_digits: "x \<in> set (str_nat n) \<Longrightarrow> is_digit x"
proof (induction n arbitrary: x rule: str_nat.induct)
  case (1 n)
  then show ?case
    by (subst (asm) (2) str_nat.simps) (auto simp: is_digit_digit_char split: if_splits)
qed

lemma str_nat_not_empty: "str_nat n \<noteq> []"
  by (subst str_nat.simps) simp

lemma str_nat_value: "foldl (\<lambda>a c. 10 * a + digit_val c) 0 (str_nat n) = n"
proof (induction n rule: str_nat.induct)
  case (1 n)
  show ?case
  proof (cases "n < 10")
    case True
    then show ?thesis by (subst str_nat.simps) (simp add: digit_val_digit_char)
  next
    case False
    with 1 show ?thesis by (subst str_nat.simps) (simp add: digit_val_digit_char)
  qed
qed

lemma parse_nat_str_nat:
  "rest = [] \<or> \<not> is_digit (hd rest) \<Longrightarrow> parse_nat (str_nat n @ rest) = Some (n, rest)"
proof -
  assume r: "rest = [] \<or> \<not> is_digit (hd rest)"
  then have t: "takeWhile is_digit rest = []" and d: "dropWhile is_digit rest = rest"
    by (cases rest; auto)+
  show ?thesis
    by (simp add: parse_nat_def str_nat_digits t d str_nat_not_empty str_nat_value)
qed

lemma hd_str_nat_digit: "is_digit (hd (str_nat n))"
  using str_nat_digits [of "hd (str_nat n)" n] str_nat_not_empty [of n] by simp

lemma parse_int_int_repr:
  "rest = [] \<or> \<not> is_digit (hd rest) \<Longrightarrow> parse_int (int_repr i @ rest) = Some (i, rest)"
proof -
  assume r: "rest = [] \<or> \<not> is_digit (hd rest)"
  show ?thesis
  proof (cases "i < 0")
    case True
    then show ?thesis
      by (simp add: parse_int_def int_repr_def parse_nat_str_nat [OF r])
  next
    case False
    obtain c t where ct: "str_nat (nat i) = c # t"
      using str_nat_not_empty [of "nat i"] by (cases "str_nat (nat i)") auto
    with hd_str_nat_digit [of "nat i"] have "c \<noteq> CHR ''-''"
      by (auto simp: is_digit_def)
    with False ct parse_nat_str_nat [OF r, of "nat i"] show ?thesis
      by (simp add: parse_int_def int_repr_def)
  qed
qed

lemma literal_ok_int: "literal_ok int_repr parse_int"
proof -
  have "int_repr x \<noteq> []" for x
    by (simp add: int_repr_def str_nat_not_empty)
  moreover have "hd (int_repr x) \<notin> set '' ()''" for x
    using hd_str_nat_digit [of "nat x"] by (auto simp: int_repr_def is_digit_def)
  moreover have "parse_int (int_repr x @ rest) = Some (x, rest)"
    if "rest \<noteq> [] \<and> hd rest \<in> set '',)''" for x rest
    using that by (intro parse_int_int_repr) (auto simp: is_digit_def)
  ultimately show ?thesis
    unfolding literal_ok_def by blast
qed

subsection \<open>Reading a list of items\<close>

lemma length_skip_ws: "length (skip_ws s) \<le> length s"
  by (simp add: skip_ws_def length_dropWhile_le)

lemma skip_ws_blank: "skip_ws (CHR '' '' # s) = skip_ws s"
  by (simp add: skip_ws_def)

lemma skip_ws_id: "s \<noteq> [] \<Longrightarrow> hd s \<noteq> CHR '' '' \<Longrightarrow> skip_ws s = s"
  by (cases s) (simp_all add: skip_ws_def)

lemma parse_list_close:
  "skip_ws s = CHR '')'' # rest \<Longrightarrow> parse_list q s = Some (([], False), rest)"
  by (subst parse_list.simps) simp

lemma parse_list_item:
  assumes s: "skip_ws s = g @ d # u" and g: "g \<noteq> []" "hd g \<noteq> CHR '')''"
    and q: "q (g @ d # u) = Some (x, d # u)"
    and d: "d = CHR '','' \<or> d = CHR '')''"
  shows "parse_list q s =
    (if d = CHR '')'' then Some (([x], False), u)
     else case parse_list q u of
            None \<Rightarrow> None
          | Some ((xs, b), rest) \<Rightarrow> Some ((x # xs, True), rest))"
proof -
  obtain c t where ct: "g = c # t" using g by (cases g) auto
  with g have c: "c \<noteq> CHR '')''" by simp
  have len: "length u < length s"
    using length_skip_ws [of s] s by simp
  from d have sk: "skip_ws (d # u) = d # u"
    by (auto simp: skip_ws_def)
  from s q c ct len sk d show ?thesis
    by (subst parse_list.simps) (auto simp: ct)
qed

lemma hd_join: "g y \<noteq> [] \<Longrightarrow> hd (join sep (map g (y # ys)) @ z) = hd (g y)"
  by (cases ys) simp_all

lemma parse_list_join:
  assumes ok: "\<And>x rest. x \<in> set xs \<Longrightarrow>
      g x \<noteq> [] \<and> hd (g x) \<noteq> CHR '' '' \<and> hd (g x) \<noteq> CHR '')''
      \<and> (rest \<noteq> [] \<and> hd rest \<in> set '',)'' \<longrightarrow> q (g x @ rest) = Some (x, rest))"
  shows "xs \<noteq> [] \<Longrightarrow> skip_ws s = join '', '' (map g xs) @ CHR '')'' # rest \<Longrightarrow>
    parse_list q s = Some ((xs, 2 \<le> length xs), rest)"
  using ok
proof (induction xs arbitrary: s)
  case Nil
  then show ?case by simp
next
  case (Cons x xs)
  have gx: "g x \<noteq> []" "hd (g x) \<noteq> CHR '')''"
    using Cons.prems(3) [of x] by simp_all
  show ?case
  proof (cases xs)
    case Nil
    have "q (g x @ CHR '')'' # rest) = Some (x, CHR '')'' # rest)"
      using Cons.prems(3) [of x "CHR '')'' # rest"] by simp
    with Cons.prems(2) gx show ?thesis
      by (simp add: Nil parse_list_item [where g = "g x" and d = "CHR '')''" and u = rest and x = x])
  next
    case xs: (Cons y ys)
    let ?J = "join '', '' (map g (y # ys)) @ CHR '')'' # rest"
    have gy: "g y \<noteq> []" "hd (g y) \<noteq> CHR '' ''"
      using Cons.prems(3) [of y] xs by simp_all
    have s: "skip_ws s = g x @ CHR '','' # (CHR '' '' # ?J)"
      using Cons.prems(2) by (simp add: xs)
    have "q (g x @ CHR '','' # (CHR '' '' # ?J)) = Some (x, CHR '','' # (CHR '' '' # ?J))"
      using Cons.prems(3) [of x "CHR '','' # (CHR '' '' # ?J)"] by simp
    then have step: "parse_list q s =
        (case parse_list q (CHR '' '' # ?J) of
           None \<Rightarrow> None
         | Some ((zs, b), r) \<Rightarrow> Some ((x # zs, True), r))"
      using parse_list_item [OF s gx, of q x] by simp
    have "hd ?J = hd (g y)"
      using gy(1) by (rule hd_join)
    with gy have "skip_ws (CHR '' '' # ?J) = ?J"
      by (simp add: skip_ws_blank skip_ws_id)
    then have "parse_list q (CHR '' '' # ?J) = Some ((xs, 2 \<le> length xs), rest)"
      using Cons.prems(3) by (intro Cons.IH) (simp_all add: xs)
    with step show ?thesis by (simp add: xs)
  qed
qed

lemma parse_arg_item:
  assumes ok: "literal_ok r p" and rest: "rest \<noteq> []" "hd rest \<in> set '',)''"
  shows "parse_arg p (r x @ rest) = Some (Item x, rest)"
proof -
  from ok have nz: "r x \<noteq> []" and hd: "hd (r x) \<noteq> CHR ''(''"
    and p: "p (r x @ rest) = Some (x, rest)"
    using rest by (auto simp: literal_ok_def)
  from nz obtain c t where ct: "r x = c # t" by (cases "r x") auto
  with hd p show ?thesis
    by (simp add: parse_arg_def)
qed

lemma parse_arg_display1:
  assumes ok: "literal_ok r p"
  shows "parse_arg p (CHR ''('' # r x @ '',)'' @ rest) = Some (Display [x], rest)"
proof -
  from ok have nz: "r x \<noteq> []" and hd: "hd (r x) \<noteq> CHR '')''" "hd (r x) \<noteq> CHR '' ''"
    and p: "p (r x @ CHR '','' # CHR '')'' # rest) = Some (x, CHR '','' # CHR '')'' # rest)"
    by (auto simp: literal_ok_def)
  have "skip_ws (r x @ CHR '','' # CHR '')'' # rest) = r x @ CHR '','' # CHR '')'' # rest"
    using nz hd by (intro skip_ws_id) simp_all
  from parse_list_item [where s = "r x @ CHR '','' # CHR '')'' # rest" and g = "r x"
      and d = "CHR '',''" and u = "CHR '')'' # rest" and q = p and x = x, OF this nz hd(1) p]
  have "parse_list p (r x @ CHR '','' # CHR '')'' # rest) = Some (([x], True), rest)"
    by (simp add: parse_list_close skip_ws_def)
  then show ?thesis
    by (simp add: parse_arg_def)
qed

lemma parse_args_items:
  assumes ok: "literal_ok r p" and v: "v \<noteq> []"
  shows "parse_list (parse_arg p) (join '', '' (map r v) @ '')'')
    = Some ((map Item v, 2 \<le> length v), [])"
proof -
  define g where "g = (\<lambda>a. case a of Item x \<Rightarrow> r x | Display zs \<Rightarrow> tuple_repr r zs)"
  have g: "map g (map Item v) = map r v"
    by (simp add: g_def)
  from v obtain x xs where x: "v = x # xs" by (cases v) auto
  from ok have first: "r x \<noteq> []" "hd (r x) \<noteq> CHR '' ''"
    by (auto simp: literal_ok_def)
  have "parse_list (parse_arg p) (join '', '' (map g (map Item v)) @ CHR '')'' # [])
      = Some ((map Item v, 2 \<le> length (map Item v)), [])"
  proof (rule parse_list_join)
    fix a rest
    assume "a \<in> set (map Item v)"
    then obtain z where a: "a = Item z" by auto
    from ok have "r z \<noteq> []" "hd (r z) \<noteq> CHR '' ''" "hd (r z) \<noteq> CHR '')''"
      by (auto simp: literal_ok_def)
    with a parse_arg_item [OF ok, of _ z]
    show "g a \<noteq> [] \<and> hd (g a) \<noteq> CHR '' '' \<and> hd (g a) \<noteq> CHR '')'' \<and>
        (rest \<noteq> [] \<and> hd rest \<in> set '',)'' \<longrightarrow> parse_arg p (g a @ rest) = Some (a, rest))"
      by (simp add: g_def)
  next
    show "map Item v \<noteq> []" using v by simp
  next
    have "hd (join '', '' (map r (x # xs)) @ '')'') = hd (r x)"
      using first(1) by (rule hd_join)
    with first show "skip_ws (join '', '' (map g (map Item v)) @ '')'')
        = join '', '' (map g (map Item v)) @ '')''"
      unfolding g by (intro skip_ws_id) (simp_all add: x)
  qed
  then show ?thesis
    by (simp only: g length_map)
qed

subsection \<open>The squared magnitude\<close>

text \<open>
  Claim C4. \<^verbatim>\<open>magnitude_squared\<close> is the sum of the squares of the elements,
  computed in the arithmetic of the elements: its value is that sum, and it is a float
  exactly when some element is one. For the rationals 1/2 and 1/3 it is the rational
  13/36.
\<close>

theorem magnitude_squared_exact:
  "num_val (magnitude_squared v) = (\<Sum>x\<leftarrow>v. num_val x * num_val x)
   \<and> is_float (magnitude_squared v) = list_ex is_float v
   \<and> magnitude_squared [PFrac (1 / 2), PFrac (1 / 3)] = PFrac (13 / 36)"
proof -
  have "is_float (magnitude_squared v) = list_ex is_float v"
    by (simp add: magnitude_squared_def py_sum_def is_float_foldl_add list_ex_iff is_float_mul)
  moreover have "magnitude_squared [PFrac (1 / 2), PFrac (1 / 3)] = PFrac (13 / 36)"
    by (simp add: magnitude_squared_def py_sum_def)
  ultimately show ?thesis
    by (simp add: num_val_magnitude_squared)
qed

subsection \<open>The constructor\<close>

text \<open>
  Claim C10. A call of the constructor with exactly one argument takes that argument
  as the iterable of the elements: for an argument that is not iterable the call
  raises (\<^verbatim>\<open>TypeError\<close>) and does not build the Vector of that one element; and a
  Vector of length 1 comes only from a call with one argument, an iterable of that one
  element.
\<close>

theorem single_argument_is_iterable:
  "Vector_new [x] = (case py_iter x of None \<Rightarrow> Inl TypeError | Some xs \<Rightarrow> Inr xs)
   \<and> (py_iter x = None \<longrightarrow> Vector_new [x] = Inl TypeError)
   \<and> (Vector_new args = Inr v \<and> length v = 1 \<longrightarrow>
        (\<exists>y. args = [y] \<and> py_iter y = Some v))"
  by (cases args; cases "tl args")
     (auto simp: Vector_new_def py_tuple_def split: option.splits if_splits)

text \<open>
  \<^verbatim>\<open>Vector(5)\<close> and \<^verbatim>\<open>Vector(None)\<close> raise; \<^verbatim>\<open>Vector((5,))\<close> is the Vector of the
  element 5.
\<close>

theorem single_argument_is_iterable_witness:
  "Vector_new [Num (PInt 5)] = Inl TypeError
   \<and> Vector_new [NoneVal] = Inl TypeError
   \<and> Vector_new [Tuple [Num (PInt 5)]] = Inr [Num (PInt 5)]
   \<and> (\<exists>y. [Tuple [Num (PInt 5)]] = [y] \<and> py_iter y = Some [Num (PInt 5)])"
  using single_argument_is_iterable [of "Num (PInt 5)" "[Tuple [Num (PInt 5)]]" "[Num (PInt 5)]"]
    single_argument_is_iterable [of NoneVal "[Tuple [Num (PInt 5)]]" "[Num (PInt 5)]"]
  by (simp add: Vector_new_def py_tuple_def)

subsection \<open>The cross product\<close>



subsection \<open>Operands of different lengths\<close>

text \<open>
  Claim C2. Addition and subtraction (with the Vector on either side of a sequence),
  \<^verbatim>\<open>dot\<close> and \<^verbatim>\<open>cross\<close> raise \<^verbatim>\<open>IncompatibleDimensions\<close> when the two lengths
  differ, and the exception carries the length of the Vector and the length of the
  other operand, in this order.
\<close>

theorem incompatible_dimensions:
  "(is_Sequence other \<and> length self \<noteq> length (items other) \<longrightarrow>
      Vector_add self other = Inl (IncompatibleDimensions (length self) (length (items other)))
    \<and> Vector_radd self other = Inl (IncompatibleDimensions (length self) (length (items other)))
    \<and> Vector_sub self other = Inl (IncompatibleDimensions (length self) (length (items other)))
    \<and> Vector_rsub self other = Inl (IncompatibleDimensions (length self) (length (items other))))
   \<and> (length self \<noteq> length w \<longrightarrow>
      dot self w = Inl (IncompatibleDimensions (length self) (length w))
    \<and> cross self w = Inl (IncompatibleDimensions (length self) (length w)))"
  by (simp add: Vector_add_def Vector_radd_def Vector_sub_def Vector_rsub_def dot_def cross_def
      check_compatibility_def)

text \<open>\<^verbatim>\<open>Vector(0, 0) + (0, 0, 0)\<close> raises \<^verbatim>\<open>IncompatibleDimensions: (2, 3)\<close>.\<close>

theorem incompatible_dimensions_witness:
  "Vector_add [PInt 0, PInt 0] (Tuple [Num (PInt 0), Num (PInt 0), Num (PInt 0)])
     = Inl (IncompatibleDimensions 2 3)
   \<and> Vector_radd [PInt 0, PInt 0] (Tuple [Num (PInt 0), Num (PInt 0), Num (PInt 0)])
     = Inl (IncompatibleDimensions 2 3)
   \<and> Vector_sub [PInt 0, PInt 0] (Tuple [Num (PInt 0), Num (PInt 0), Num (PInt 0)])
     = Inl (IncompatibleDimensions 2 3)
   \<and> Vector_rsub [PInt 0, PInt 0] (Tuple [Num (PInt 0), Num (PInt 0), Num (PInt 0)])
     = Inl (IncompatibleDimensions 2 3)
   \<and> dot [PInt 0, PInt 0] [PInt 0, PInt 0, PInt 0] = Inl (IncompatibleDimensions 2 3)
   \<and> cross [PInt 0, PInt 0] [PInt 0, PInt 0, PInt 0] = Inl (IncompatibleDimensions 2 3)"
  using incompatible_dimensions [of "Tuple [Num (PInt 0), Num (PInt 0), Num (PInt 0)]"
      "[PInt 0, PInt 0]" "[PInt 0, PInt 0, PInt 0]"]
  by (simp add: items_def)

subsection \<open>Operands that are not sequences\<close>




subsection \<open>Lengths\<close>



subsection \<open>Commutativity\<close>

text \<open>
  Claim C8, as the code has it. For Vectors \<open>v\<close> and \<open>w\<close> of equal length \<^verbatim>\<open>v + w\<close>
  and \<^verbatim>\<open>w + v\<close> have the same outcome: both raise the same exception (an integer or
  rational too large for the float it is added to), or both return the same elements,
  and then \<^verbatim>\<open>v + w == w + v\<close> holds exactly when none of these elements is NaN. In
  particular it holds whenever all the elements are integers or rationals, where
  the sums always return. The same is true of \<^verbatim>\<open>s * v\<close> and \<^verbatim>\<open>v * s\<close> for a number
  \<open>s\<close>.
\<close>

theorem commutativity:
  "(length w = length v \<longrightarrow>
      xVector_add v w = xVector_add w v
    \<and> (\<forall>a b. xVector_add v w = Inr a \<and> xVector_add w v = Inr b \<longrightarrow>
          a = b \<and> (xVector_eq a b \<longleftrightarrow> \<not> list_ex is_nan a))
    \<and> (list_all is_exact v \<and> list_all is_exact w \<longrightarrow>
          (\<exists>a b. xVector_add v w = Inr a \<and> xVector_add w v = Inr b \<and> xVector_eq a b)))
   \<and> scalar_times_vector s v = vector_times_scalar v s
   \<and> (\<forall>a b. scalar_times_vector s v = Inr a \<and> vector_times_scalar v s = Inr b \<longrightarrow>
          a = b \<and> (xVector_eq a b \<longleftrightarrow> \<not> list_ex is_nan a))
   \<and> (list_all is_exact v \<and> is_exact s \<longrightarrow>
          (\<exists>a b. scalar_times_vector s v = Inr a \<and> vector_times_scalar v s = Inr b
                 \<and> xVector_eq a b))"
proof -
  have add: "xVector_add v w = xVector_add w v" if "length w = length v"
    using that by (rule xVector_add_commute)
  have add_exact: "\<exists>a b. xVector_add v w = Inr a \<and> xVector_add w v = Inr b \<and> xVector_eq a b"
    if "length w = length v" "list_all is_exact v" "list_all is_exact w"
  proof -
    from xVector_add_exact [OF that] obtain a
      where a: "xVector_add v w = Inr a" "list_all is_exact a" by blast
    moreover from a add [OF that(1)] have "xVector_add w v = Inr a" by simp
    moreover from a have "xVector_eq a a"
      by (simp add: xVector_eq_self list_all_exact_no_nan)
    ultimately show ?thesis by blast
  qed
  have mul: "scalar_times_vector s v = vector_times_scalar v s"
    by (simp add: scalar_times_vector_def vector_times_scalar_def xVector_rmul_def xVector_mul_def)
  have mul_exact: "\<exists>a b. scalar_times_vector s v = Inr a \<and> vector_times_scalar v s = Inr b
      \<and> xVector_eq a b"
    if "list_all is_exact v" "is_exact s"
  proof -
    from xVector_mul_exact [OF that] obtain a
      where a: "xVector_mul v s = Inr a" "list_all is_exact a" by blast
    then have "vector_times_scalar v s = Inr a"
      by (simp add: vector_times_scalar_def)
    moreover from this mul have "scalar_times_vector s v = Inr a" by simp
    moreover from a have "xVector_eq a a"
      by (simp add: xVector_eq_self list_all_exact_no_nan)
    ultimately show ?thesis by blast
  qed
  from add add_exact mul mul_exact show ?thesis
    by (auto simp: xVector_eq_self)
qed

text \<open>
  Integers with rationals, floats with an infinity, and the products of a Vector with
  the integer 10 and with the float 2.0, in both orders.
\<close>

theorem commutativity_witness:
  "xVector_add [Finite (PInt 1), Finite (PInt 2)] [Finite (PFrac (7 / 2)), Finite (PInt 4)]
     = Inr [Finite (PFrac (9 / 2)), Finite (PInt 6)]
   \<and> xVector_add [Finite (PFrac (7 / 2)), Finite (PInt 4)] [Finite (PInt 1), Finite (PInt 2)]
     = Inr [Finite (PFrac (9 / 2)), Finite (PInt 6)]
   \<and> xVector_eq [Finite (PFrac (9 / 2)), Finite (PInt 6)] [Finite (PFrac (9 / 2)), Finite (PInt 6)]
   \<and> xVector_add [Finite (PInt 1), Special PosInf] [Finite (PFloat (9 / 2)), Finite (PInt 2)]
     = Inr [Finite (PFloat (11 / 2)), Special PosInf]
   \<and> xVector_add [Finite (PFloat (9 / 2)), Finite (PInt 2)] [Finite (PInt 1), Special PosInf]
     = Inr [Finite (PFloat (11 / 2)), Special PosInf]
   \<and> xVector_eq [Finite (PFloat (11 / 2)), Special PosInf]
        [Finite (PFloat (11 / 2)), Special PosInf]
   \<and> scalar_times_vector (Finite (PInt 10)) [Finite (PInt 1), Finite (PFrac (1 / 2))]
     = Inr [Finite (PInt 10), Finite (PFrac 5)]
   \<and> vector_times_scalar [Finite (PInt 1), Finite (PFrac (1 / 2))] (Finite (PInt 10))
     = Inr [Finite (PInt 10), Finite (PFrac 5)]
   \<and> xVector_eq [Finite (PInt 10), Finite (PFrac 5)] [Finite (PInt 10), Finite (PFrac 5)]
   \<and> scalar_times_vector (Finite (PFloat 2)) [Finite (PFloat (9 / 2))]
     = Inr [Finite (PFloat 9)]
   \<and> xVector_eq [Finite (PFloat 9)] [Finite (PFloat 9)]"
proof -
  let ?v = "[Finite (PInt 1), Finite (PInt 2)]"
  let ?w = "[Finite (PFrac (7 / 2)), Finite (PInt 4)]"
  let ?v' = "[Finite (PInt 1), Special PosInf]"
  let ?w' = "[Finite (PFloat (9 / 2)), Finite (PInt 2)]"
  let ?u = "[Finite (PInt 1), Finite (PFrac (1 / 2))]"
  have a: "xVector_add ?v ?w = Inr [Finite (PFrac (9 / 2)), Finite (PInt 6)]"
    by (simp add: xVector_add_def check_compatibility_def)
  have b: "xVector_add ?v' ?w' = Inr [Finite (PFloat (11 / 2)), Special PosInf]"
    by (simp add: xVector_add_def check_compatibility_def to_double_moderate
        float_result_moderate)
  have m: "vector_times_scalar ?u (Finite (PInt 10)) = Inr [Finite (PInt 10), Finite (PFrac 5)]"
    by (simp add: vector_times_scalar_def xVector_mul_def)
  have n: "vector_times_scalar [Finite (PFloat (9 / 2))] (Finite (PFloat 2))
      = Inr [Finite (PFloat 9)]"
    by (simp add: vector_times_scalar_def xVector_mul_def float_result_moderate)
  note c = commutativity [where v = ?v and w = ?w and s = "Finite (PInt 10)"]
  note c' = commutativity [where v = ?v' and w = ?w' and s = "Finite (PInt 10)"]
  note d = commutativity [where v = ?u and w = "[]" and s = "Finite (PInt 10)"]
  note d' = commutativity [where v = "[Finite (PFloat (9 / 2))]" and w = "[]"
      and s = "Finite (PFloat 2)"]
  have len: "length ?w = length ?v" "length ?w' = length ?v'"
    by simp_all
  have nan: "\<not> list_ex is_nan [Finite (PFrac (9 / 2)), Finite (PInt 6)]"
    "\<not> list_ex is_nan [Finite (PFloat (11 / 2)), Special PosInf]"
    "\<not> list_ex is_nan [Finite (PInt 10), Finite (PFrac 5)]"
    "\<not> list_ex is_nan [Finite (PFloat 9)]"
    by simp_all
  from c len(1) have "xVector_add ?v ?w = xVector_add ?w ?v" by blast
  with a have c1: "xVector_add ?w ?v = Inr [Finite (PFrac (9 / 2)), Finite (PInt 6)]"
    by (simp only:)
  from c len(1) a c1 nan(1)
  have c1': "xVector_eq [Finite (PFrac (9 / 2)), Finite (PInt 6)]
      [Finite (PFrac (9 / 2)), Finite (PInt 6)]"
    by blast
  from c' len(2) have "xVector_add ?v' ?w' = xVector_add ?w' ?v'" by blast
  with b have c2: "xVector_add ?w' ?v' = Inr [Finite (PFloat (11 / 2)), Special PosInf]"
    by (simp only:)
  from c' len(2) b c2 nan(2)
  have c2': "xVector_eq [Finite (PFloat (11 / 2)), Special PosInf]
      [Finite (PFloat (11 / 2)), Special PosInf]"
    by blast
  from d have "scalar_times_vector (Finite (PInt 10)) ?u
      = vector_times_scalar ?u (Finite (PInt 10))" by blast
  with m have c3: "scalar_times_vector (Finite (PInt 10)) ?u
      = Inr [Finite (PInt 10), Finite (PFrac 5)]"
    by (simp only:)
  from d m c3 nan(3)
  have c3': "xVector_eq [Finite (PInt 10), Finite (PFrac 5)] [Finite (PInt 10), Finite (PFrac 5)]"
    by blast
  from d' have "scalar_times_vector (Finite (PFloat 2)) [Finite (PFloat (9 / 2))]
      = vector_times_scalar [Finite (PFloat (9 / 2))] (Finite (PFloat 2))" by blast
  with n have c4: "scalar_times_vector (Finite (PFloat 2)) [Finite (PFloat (9 / 2))]
      = Inr [Finite (PFloat 9)]"
    by (simp only:)
  from d' n c4 nan(4)
  have c4': "xVector_eq [Finite (PFloat 9)] [Finite (PFloat 9)]"
    by blast
  from a b m c1 c1' c2 c2' c3 c3' c4 c4' show ?thesis by blast
qed

text \<open>
  The claim for all Vectors fails on a NaN element: \<^verbatim>\<open>Vector(nan, 0) + Vector(1.0, 0)\<close>
  and the sum in the other order both have the elements NaN and 0, and the two
  results are not equal, NaN being equal to nothing; so for \<^verbatim>\<open>2 * Vector(nan)\<close> and
  \<^verbatim>\<open>Vector(nan) * 2\<close>.
\<close>

theorem nan_element_counterexample:
  "xVector_add [Special NaN, Finite (PInt 0)] [Finite (PFloat 1), Finite (PInt 0)]
     = Inr [Special NaN, Finite (PInt 0)]
   \<and> xVector_add [Finite (PFloat 1), Finite (PInt 0)] [Special NaN, Finite (PInt 0)]
     = Inr [Special NaN, Finite (PInt 0)]
   \<and> \<not> xVector_eq [Special NaN, Finite (PInt 0)] [Special NaN, Finite (PInt 0)]
   \<and> scalar_times_vector (Finite (PInt 2)) [Special NaN] = Inr [Special NaN]
   \<and> vector_times_scalar [Special NaN] (Finite (PInt 2)) = Inr [Special NaN]
   \<and> \<not> xVector_eq [Special NaN] [Special NaN]"
  by (simp add: xVector_add_def check_compatibility_def xVector_eq_def scalar_times_vector_def
      vector_times_scalar_def xVector_rmul_def xVector_mul_def to_double_moderate
      times_special_def)

subsection \<open>Vectors of magnitude zero\<close>

text \<open>
  Claim C3. A Vector whose magnitude is zero makes \<^verbatim>\<open>scaled\<close>, \<^verbatim>\<open>normalized\<close> and
  \<^verbatim>\<open>projected\<close> raise \<^verbatim>\<open>ZeroDivisionError\<close>. The code at the empty Vector, whose
  magnitude is 0.0: \<^verbatim>\<open>scaled\<close> and \<^verbatim>\<open>projected\<close> raise, but \<^verbatim>\<open>normalized\<close> divides
  each element by the magnitude, finds no element to divide and returns the empty
  Vector. The three examples of the documentation, \<^verbatim>\<open>Vector(0, 0).scaled(3)\<close>,
  \<^verbatim>\<open>Vector(0, 0, 0).normalized()\<close> and \<^verbatim>\<open>Vector(0, 0, 0, 0).projected((1, 2, 3, 4))\<close>,
  raise.
\<close>

theorem normalized_of_empty_vector:
  "magnitude [] = Inr (PFloat 0)
   \<and> normalized [] = Inr []
   \<and> scaled [] (PInt 3) = Inl ZeroDivisionError
   \<and> projected [] [] = Inl ZeroDivisionError
   \<and> scaled [PInt 0, PInt 0] (PInt 3) = Inl ZeroDivisionError
   \<and> normalized [PInt 0, PInt 0, PInt 0] = Inl ZeroDivisionError
   \<and> projected [PInt 0, PInt 0, PInt 0, PInt 0] [PInt 1, PInt 2, PInt 3, PInt 4]
       = Inl ZeroDivisionError"
  by (simp add: magnitude_def Vector_abs_def magnitude_squared_def py_sum_def py_sqrt_def
      to_double_def float_limit_def float_tiny_def normalized_def Vector_truediv_def
      scaled_def projected_def dot_def check_compatibility_def)

subsection \<open>The angle between two vectors\<close>




subsection \<open>The display and the constructor\<close>

text \<open>
  Claim C7, as the code has it. A Vector of length 1 is displayed as
  \<^verbatim>\<open>Vector((x,))\<close>, the one-element tuple inside the call, and a Vector of any other
  length as \<^verbatim>\<open>Vector(x, y, ...)\<close>. Whenever the display of each element is read
  back as that element, the display of the Vector evaluates, by a call of the
  constructor, to the Vector of the same elements.
\<close>

theorem display_round_trip:
  "literal_ok r p \<longrightarrow>
     eval_repr p emb (Vector_repr r v) = Some (Inr (map emb v))
   \<and> (length v = 1 \<longrightarrow> Vector_repr r v = ''Vector(('' @ r (hd v) @ '',))'')
   \<and> (length v \<noteq> 1 \<longrightarrow> Vector_repr r v = ''Vector('' @ join '', '' (map r v) @ '')'')"
proof (intro impI conjI)
  assume ok: "literal_ok r p"
  consider "v = []" | x where "v = [x]" | "2 \<le> length v"
    by (cases v; cases "tl v") auto
  then show "eval_repr p emb (Vector_repr r v) = Some (Inr (map emb v))"
  proof cases
    case 1
    then show ?thesis
      by (simp add: eval_repr_def parse_call_def Vector_repr_def tuple_repr_def
          parse_list_close skip_ws_def Vector_new_def)
  next
    case 2
    have a: "parse_arg p (CHR ''('' # r x @ '',)'' @ '')'') = Some (Display [x], '')'')"
      using ok by (rule parse_arg_display1)
    have "parse_list (parse_arg p) (CHR ''('' # r x @ '',)'' @ '')'')
        = Some (([Display [x]], False), [])"
      using a
      by (intro trans [OF parse_list_item [where g = "CHR ''('' # r x @ '',)''"
              and d = "CHR '')''" and u = "[]" and x = "Display [x]"]])
         (simp_all add: skip_ws_def)
    then show ?thesis
      by (simp add: eval_repr_def parse_call_def Vector_repr_def tuple_repr_def
          2 Vector_new_def py_tuple_def)
  next
    case 3
    then have "v \<noteq> []" by auto
    from parse_args_items [OF ok this] 3 show ?thesis
      by (simp add: eval_repr_def parse_call_def Vector_repr_def tuple_repr_def
          Vector_new_def comp_def)
  qed
next
  assume "length v = 1"
  then show "Vector_repr r v = ''Vector(('' @ r (hd v) @ '',))''"
    by (simp add: Vector_repr_def tuple_repr_def)
next
  assume "length v \<noteq> 1"
  then show "Vector_repr r v = ''Vector('' @ join '', '' (map r v) @ '')''"
    by (simp add: Vector_repr_def tuple_repr_def)
qed

text \<open>
  Vectors of integers: \<^verbatim>\<open>Vector(1, 2, 3)\<close>, the one-element \<^verbatim>\<open>Vector((5,))\<close> and
  \<^verbatim>\<open>Vector(-12, 30)\<close>.
\<close>

theorem display_round_trip_witness:
  "literal_ok int_repr parse_int
   \<and> Vector_repr int_repr [1, 2, 3] = ''Vector(1, 2, 3)''
   \<and> eval_repr parse_int int_val ''Vector(1, 2, 3)''
       = Some (Inr [Num (PInt 1), Num (PInt 2), Num (PInt 3)])
   \<and> Vector_repr int_repr [5] = ''Vector((5,))''
   \<and> eval_repr parse_int int_val ''Vector((5,))'' = Some (Inr [Num (PInt 5)])
   \<and> Vector_repr int_repr [- 12, 30] = ''Vector(-12, 30)''
   \<and> eval_repr parse_int int_val ''Vector(-12, 30)''
       = Some (Inr [Num (PInt (- 12)), Num (PInt 30)])"
proof -
  have r: "Vector_repr int_repr [1, 2, 3] = ''Vector(1, 2, 3)''"
    "Vector_repr int_repr [5] = ''Vector((5,))''"
    "Vector_repr int_repr [- 12, 30] = ''Vector(-12, 30)''"
    by (simp_all add: Vector_repr_def tuple_repr_def int_repr_def str_nat.simps digit_char_def)
  have "eval_repr parse_int int_val (Vector_repr int_repr [1, 2, 3])
      = Some (Inr (map int_val [1, 2, 3]))"
    and "eval_repr parse_int int_val (Vector_repr int_repr [5]) = Some (Inr (map int_val [5]))"
    and "eval_repr parse_int int_val (Vector_repr int_repr [- 12, 30])
      = Some (Inr (map int_val [- 12, 30]))"
    using literal_ok_int
      display_round_trip [of int_repr parse_int int_val "[1, 2, 3]"]
      display_round_trip [of int_repr parse_int int_val "[5]"]
      display_round_trip [of int_repr parse_int int_val "[- 12, 30]"]
    by blast+
  then show ?thesis
    unfolding r using literal_ok_int by (simp add: int_val_def)
qed

text \<open>
  The display of a Vector of length 1 is not \<^verbatim>\<open>Vector(x)\<close>, as the claim has it:
  the Vector of the element 5 is displayed as \<^verbatim>\<open>Vector((5,))\<close>. The text
  \<^verbatim>\<open>Vector(5)\<close> would not be read back: it is a call with the single argument 5, which
  is not iterable.
\<close>

theorem display_of_one_element_counterexample:
  "Vector_repr int_repr [5] = ''Vector((5,))''
   \<and> Vector_repr int_repr [5] \<noteq> ''Vector(5)''
   \<and> eval_repr parse_int int_val ''Vector(5)'' = Some (Inl TypeError)"
proof -
  have "parse_list (parse_arg parse_int) ''5)'' = Some (([Item 5], False), [])"
    by (subst parse_list.simps)
       (simp add: skip_ws_def parse_arg_def parse_int_def parse_nat_def is_digit_def digit_val_def)
  then show ?thesis
    by (simp add: Vector_repr_def tuple_repr_def int_repr_def str_nat.simps digit_char_def
        eval_repr_def parse_call_def Vector_new_def py_tuple_def int_val_def)
qed

end
